theory Spec2Isabelle
  imports Main
begin

section \<open>Data model of the WebSocket manager\<close>

text \<open>
  The repository holds two editions of \<open>WebSocketManager\<close>: one built on the \<open>ws\<close>
  package (the file that starts with \<open>import { WebSocketServer, WebSocket } from 'ws'\<close>)
  and one for Bun's native sockets (\<open>handleConnection\<close>).  Their routing code
  (\<open>handleMessage\<close>, \<open>broadcast\<close>, \<open>sendToServers\<close>, \<open>sendToProxy\<close> and the
  \<open>notify...\<close> methods) is the same text up to \<open>client.readyState\<close> versus
  \<open>client.socket.readyState\<close>; it is embedded once.  The connection handlers and the
  keepalive timers differ and are embedded separately.

  A client object is identified by its reference: the registry is a JavaScript \<open>Set\<close>
  of object references, modelled as the list of references in insertion order together
  with a heap from references to objects.
\<close>

type_synonym conn_id = nat

datatype ready_state = CONNECTING | OPEN | CLOSING | CLOSED

datatype server_type = proxy | server

text \<open>
  Thrown values.  The message of an \<open>ApiError\<close> is a template literal; its text parts
  and interpolated numbers are kept apart.
\<close>

datatype piece = Txt string | Num int

datatype js_error = SyntaxError | TypeError | JsError string | ApiError "piece list" nat

text \<open>
  \<open>AuthenticatedWebSocket\<close>: the fields the manager adds, together with the two facts
  about the underlying socket that the code or its transport depend on: \<open>readyState\<close>,
  and \<open>failure\<close>, the condition of the network transport below the socket: \<open>None\<close>
  when it works, and otherwise the event by which the transport reports a write that it
  could not complete (\<open>error\<close>, or \<open>close\<close> when it just drops the connection).
\<close>

datatype ws_event = EvClose | EvError

record client =
  readyState :: ready_state
  failure :: "ws_event option"
  isAlive :: bool
  serverType :: "server_type option"
  serverName :: "string option"
  authenticated :: bool

datatype json =
    JNull
  | JBool bool
  | JNum string
  | JStr string
  | JArr "json list"
  | JObj "(string \<times> json) list"

text \<open>Calls made on a socket, in the order they are made.\<close>

datatype effect =
    Send conn_id string
  | Ping conn_id
  | Close conn_id nat string
  | Terminate conn_id

text \<open>One constructor for each \<open>console\<close> line of the manager.\<close>

datatype log_entry =
    WarnRejectedInvalidKey
  | WarnRejectedMissingType
  | WarnRejectedInvalidType
  | LogConnected "server_type option" "string option"
  | LogDisconnected "server_type option" "string option"
  | ErrSocket "server_type option" "string option"
  | LogTerminating "server_type option" "string option"
  | LogReceived string "server_type option" "string option"
  | ErrParse js_error

text \<open>
  The manager with its surroundings: \<open>clients\<close> is the \<open>Set\<close>; \<open>wire\<close> records the
  calls made on sockets; \<open>pending\<close> holds the events that the transport has still to
  emit on a socket.
\<close>

record manager =
  clients :: "conn_id list"
  heap :: "conn_id \<Rightarrow> client"
  wire :: "effect list"
  console :: "log_entry list"
  pending :: "(conn_id \<times> ws_event) list"

text \<open>
  A statement either completes or throws; in both cases the effects made so far remain.
  \<open>(None, m)\<close> is normal completion, \<open>(Some e, m)\<close> is \<open>e\<close> thrown in state \<open>m\<close>.
\<close>

type_synonym outcome = "js_error option \<times> manager"

definition ok :: "manager \<Rightarrow> outcome" where
  "ok m = (None, m)"

definition andThen :: "outcome \<Rightarrow> (manager \<Rightarrow> outcome) \<Rightarrow> outcome" where
  "andThen r f = (case r of (None, m) \<Rightarrow> f m | (Some e, m) \<Rightarrow> (Some e, m))"

definition log_line :: "log_entry \<Rightarrow> manager \<Rightarrow> manager" where
  "log_line l m = m\<lparr>console := console m @ [l]\<rparr>"

definition update_client :: "conn_id \<Rightarrow> (client \<Rightarrow> client) \<Rightarrow> manager \<Rightarrow> manager" where
  "update_client c f m = m\<lparr>heap := (heap m)(c := f (heap m c))\<rparr>"

subsection \<open>The JavaScript \<open>Set\<close>\<close>

definition Set_add :: "'a \<Rightarrow> 'a list \<Rightarrow> 'a list" where
  "Set_add x xs = (if x \<in> set xs then xs else xs @ [x])"

text \<open>\<open>Set.prototype.delete\<close> returns whether the element was present; it never throws.\<close>

definition Set_delete :: "'a \<Rightarrow> 'a list \<Rightarrow> bool \<times> 'a list" where
  "Set_delete x xs = (x \<in> set xs, removeAll x xs)"

definition clients_delete :: "conn_id \<Rightarrow> manager \<Rightarrow> manager" where
  "clients_delete c m = m\<lparr>clients := snd (Set_delete c (clients m))\<rparr>"

text \<open>
  \<open>Set.prototype.forEach\<close>.  No callback of the manager changes the set while it is being
  walked (a socket's \<open>close\<close> event is emitted after the current call returns), so the
  walk visits the members present at its start, in insertion order, and stops at the
  first callback that throws.
\<close>

fun forEach :: "('a \<Rightarrow> manager \<Rightarrow> outcome) \<Rightarrow> 'a list \<Rightarrow> manager \<Rightarrow> outcome" where
  "forEach f [] m = (None, m)"
| "forEach f (c # cs) m =
     (case f c m of
        (None, m') \<Rightarrow> forEach f cs m'
      | (Some e, m') \<Rightarrow> (Some e, m'))"

subsection \<open>The transport\<close>


definition queue_event ::
    "conn_id \<times> ws_event \<Rightarrow> (conn_id \<times> ws_event) list \<Rightarrow> (conn_id \<times> ws_event) list" where
  "queue_event e q = (if e \<in> set q then q else q @ [e])"

definition queue_failure ::
    "client \<Rightarrow> conn_id \<Rightarrow> (conn_id \<times> ws_event) list \<Rightarrow> (conn_id \<times> ws_event) list" where
  "queue_failure cl c q = (case failure cl of None \<Rightarrow> q | Some ev \<Rightarrow> queue_event (c, ev) q)"

definition ws_write :: "conn_id \<Rightarrow> effect \<Rightarrow> manager \<Rightarrow> outcome" where
  "ws_write c eff m =
     (case readyState (heap m c) of
        CONNECTING \<Rightarrow> (Some (JsError ''WebSocket is not open: readyState 0 (CONNECTING)''), m)
      | OPEN \<Rightarrow>
          (None, m\<lparr>wire := wire m @ [eff], pending := queue_failure (heap m c) c (pending m)\<rparr>)
      | CLOSING \<Rightarrow> (None, m)
      | CLOSED \<Rightarrow> (None, m))"

definition ws_send :: "conn_id \<Rightarrow> string \<Rightarrow> manager \<Rightarrow> outcome" where
  "ws_send c data m = ws_write c (Send c data) m"

definition ws_ping :: "conn_id \<Rightarrow> manager \<Rightarrow> outcome" where
  "ws_ping c m = ws_write c (Ping c) m"

definition ws_close :: "conn_id \<Rightarrow> nat \<Rightarrow> string \<Rightarrow> manager \<Rightarrow> manager" where
  "ws_close c code reason m =
     (if readyState (heap m c) = CLOSING \<or> readyState (heap m c) = CLOSED then m
      else (update_client c (\<lambda>cl. cl\<lparr>readyState := CLOSING\<rparr>) m)
             \<lparr>wire := wire m @ [Close c code reason], pending := queue_event (c, EvClose) (pending m)\<rparr>)"

definition ws_terminate :: "conn_id \<Rightarrow> manager \<Rightarrow> manager" where
  "ws_terminate c m =
     (if readyState (heap m c) = CLOSED then m
      else (update_client c (\<lambda>cl. cl\<lparr>readyState := CLOSING\<rparr>) m)
             \<lparr>wire := wire m @ [Terminate c], pending := queue_event (c, EvClose) (pending m)\<rparr>)"

text \<open>
  The builtins of the JavaScript platform that the manager calls.  They are parameters:
  \<open>JSON.parse\<close> (which throws \<open>SyntaxError\<close> on malformed text), \<open>JSON.stringify\<close>, and
  the string conversion that a template literal applies to an interpolated value
  (\<open>None\<close> is \<open>undefined\<close>).
\<close>

record platform =
  JSON_parse :: "string \<Rightarrow> js_error + json"
  JSON_stringify :: "json \<Rightarrow> string"
  ToString :: "json option \<Rightarrow> js_error + string"

section \<open>Router\<close>

text \<open>\<open>message.type\<close>: reading a property of \<open>null\<close> throws \<open>TypeError\<close>.\<close>

fun get_type :: "json \<Rightarrow> js_error + json option" where
  "get_type JNull = Inl TypeError"
| "get_type (JObj kvs) = Inr (map_of kvs ''type'')"
| "get_type (JBool b) = Inr None"
| "get_type (JNum n) = Inr None"
| "get_type (JStr s) = Inr None"
| "get_type (JArr xs) = Inr None"

definition broadcast :: "platform \<Rightarrow> json \<Rightarrow> conn_id option \<Rightarrow> manager \<Rightarrow> outcome" where
  "broadcast P message excludeClient m =
     (let data = JSON_stringify P message in
      forEach (\<lambda>client s.
          if Some client \<noteq> excludeClient \<and> readyState (heap s client) = OPEN
          then ws_send client data s else (None, s))
        (clients m) m)"

definition sendToServers :: "platform \<Rightarrow> json \<Rightarrow> manager \<Rightarrow> outcome" where
  "sendToServers P message m =
     (let data = JSON_stringify P message in
      forEach (\<lambda>client s.
          if serverType (heap s client) = Some server \<and> readyState (heap s client) = OPEN
          then ws_send client data s else (None, s))
        (clients m) m)"

definition sendToProxy :: "platform \<Rightarrow> json \<Rightarrow> manager \<Rightarrow> outcome" where
  "sendToProxy P message m =
     (let data = JSON_stringify P message in
      forEach (\<lambda>client s.
          if serverType (heap s client) = Some proxy \<and> readyState (heap s client) = OPEN
          then ws_send client data s else (None, s))
        (clients m) m)"

text \<open>The \<open>now\<close> argument is \<open>new Date().toISOString()\<close>.\<close>

definition grant_change_msg :: "string \<Rightarrow> string \<Rightarrow> json" where
  "grant_change_msg playerUuid now =
     JObj [(''type'', JStr ''GRANT_CHANGE''), (''playerUuid'', JStr playerUuid),
           (''timestamp'', JStr now)]"

definition rank_change_msg :: "string \<Rightarrow> string \<Rightarrow> json" where
  "rank_change_msg rankId now =
     JObj [(''type'', JStr ''RANK_CHANGE''), (''rankId'', JStr rankId),
           (''timestamp'', JStr now)]"

definition player_update_msg :: "string \<Rightarrow> string \<Rightarrow> json" where
  "player_update_msg playerUuid now =
     JObj [(''type'', JStr ''PLAYER_UPDATE''), (''playerUuid'', JStr playerUuid),
           (''timestamp'', JStr now)]"

definition punish_execute_msg :: "string \<Rightarrow> string \<Rightarrow> string option \<Rightarrow> string \<Rightarrow> json" where
  "punish_execute_msg playerUuid punishmentType reason now =
     JObj [(''type'', JStr ''PUNISH_EXECUTE''), (''playerUuid'', JStr playerUuid),
           (''punishmentType'', JStr punishmentType),
           (''reason'', (case reason of None \<Rightarrow> JNull | Some r \<Rightarrow> JStr r)),
           (''timestamp'', JStr now)]"

definition private_message_msg :: "string \<Rightarrow> string \<Rightarrow> string \<Rightarrow> string \<Rightarrow> json" where
  "private_message_msg targetPlayer senderName message now =
     JObj [(''type'', JStr ''PRIVATE_MESSAGE''), (''targetPlayer'', JStr targetPlayer),
           (''senderName'', JStr senderName), (''message'', JStr message),
           (''timestamp'', JStr now)]"

definition notifyGrantChange :: "platform \<Rightarrow> string \<Rightarrow> string \<Rightarrow> manager \<Rightarrow> outcome" where
  "notifyGrantChange P now playerUuid m = sendToServers P (grant_change_msg playerUuid now) m"

definition notifyRankChange :: "platform \<Rightarrow> string \<Rightarrow> string \<Rightarrow> manager \<Rightarrow> outcome" where
  "notifyRankChange P now rankId m = broadcast P (rank_change_msg rankId now) None m"

definition notifyPlayerUpdate :: "platform \<Rightarrow> string \<Rightarrow> string \<Rightarrow> manager \<Rightarrow> outcome" where
  "notifyPlayerUpdate P now playerUuid m = sendToServers P (player_update_msg playerUuid now) m"

definition notifyPunishmentExecute ::
    "platform \<Rightarrow> string \<Rightarrow> string \<Rightarrow> string \<Rightarrow> string option \<Rightarrow> manager \<Rightarrow> outcome" where
  "notifyPunishmentExecute P now playerUuid punishmentType reason m =
     sendToProxy P (punish_execute_msg playerUuid punishmentType reason now) m"

definition sendPrivateMessage ::
    "platform \<Rightarrow> string \<Rightarrow> string \<Rightarrow> string \<Rightarrow> string \<Rightarrow> manager \<Rightarrow> outcome" where
  "sendPrivateMessage P now targetPlayer senderName message m =
     sendToServers P (private_message_msg targetPlayer senderName message now) m"

text \<open>The frames handed to one socket, in order.\<close>

definition sent_to :: "conn_id \<Rightarrow> manager \<Rightarrow> string list" where
  "sent_to c m = concat (map (\<lambda>e. case e of Send c' d \<Rightarrow> (if c' = c then [d] else []) | _ \<Rightarrow> []) (wire m))"

section \<open>Inbound frames\<close>

definition catch_parse :: "js_error \<Rightarrow> manager \<Rightarrow> outcome" where
  "catch_parse e m = (None, log_line (ErrParse e) m)"

text \<open>
  \<open>handleMessage\<close>: everything between \<open>try\<close> and \<open>catch\<close> is guarded, so an
  exception of \<open>JSON.parse\<close>, of the log line (which reads \<open>message.type\<close> and converts
  it to a string) or of \<open>broadcast\<close> ends in the \<open>catch\<close> block.
\<close>

definition handleMessage :: "platform \<Rightarrow> conn_id \<Rightarrow> string \<Rightarrow> manager \<Rightarrow> outcome" where
  "handleMessage P client data m =
     (case JSON_parse P data of
        Inl e \<Rightarrow> catch_parse e m
      | Inr message \<Rightarrow>
          (case get_type message of
             Inl e \<Rightarrow> catch_parse e m
           | Inr t \<Rightarrow>
               (case ToString P t of
                  Inl e \<Rightarrow> catch_parse e m
                | Inr ts \<Rightarrow>
                    (case broadcast P message (Some client)
                            (log_line (LogReceived ts (serverType (heap m client))
                                         (serverName (heap m client))) m) of
                       (None, m') \<Rightarrow> (None, m')
                     | (Some e, m') \<Rightarrow> catch_parse e m'))))"

section \<open>Connection handling\<close>

text \<open>The query parameters of the upgrade request; \<open>None\<close> is an absent parameter.\<close>

record request =
  q_api_key :: "string option"
  q_type :: "string option"
  q_name :: "string option"

text \<open>\<open>process.env.API_KEY || ''\<close>, from the environment variable (\<open>None\<close> when unset).\<close>

definition API_KEY_of_env :: "string option \<Rightarrow> string" where
  "API_KEY_of_env v = (case v of None \<Rightarrow> [] | Some s \<Rightarrow> (if s = [] then [] else s))"

definition error_msg :: "string \<Rightarrow> json" where
  "error_msg text = JObj [(''type'', JStr ''ERROR''), (''message'', JStr text)]"

definition server_type_str :: "server_type \<Rightarrow> string" where
  "server_type_str t = (case t of proxy \<Rightarrow> ''proxy'' | server \<Rightarrow> ''server'')"

text \<open>\<open>JSON.stringify\<close> leaves out a property whose value is \<open>undefined\<close>.\<close>

definition opt_field :: "string \<Rightarrow> string option \<Rightarrow> (string \<times> json) list" where
  "opt_field k v = (case v of None \<Rightarrow> [] | Some s \<Rightarrow> [(k, JStr s)])"

definition connected_msg :: "server_type option \<Rightarrow> string option \<Rightarrow> json" where
  "connected_msg st name =
     JObj ([(''type'', JStr ''CONNECTED''), (''message'', JStr ''Connected to Core API WebSocket'')]
           @ opt_field ''serverType'' (map_option server_type_str st)
           @ opt_field ''serverName'' name)"

text \<open>\<open>x || 'unknown'\<close> for a string or \<open>null\<close>.\<close>

definition or_unknown :: "string option \<Rightarrow> string" where
  "or_unknown v = (case v of None \<Rightarrow> ''unknown'' | Some s \<Rightarrow> (if s = [] then ''unknown'' else s))"

subsection \<open>The \<open>ws\<close> edition: the \<open>connection\<close> callback of \<open>attach\<close>\<close>

definition reject :: "platform \<Rightarrow> conn_id \<Rightarrow> log_entry \<Rightarrow> string \<Rightarrow> string \<Rightarrow> manager \<Rightarrow> outcome" where
  "reject P client warning text reason m =
     andThen (ws_send client (JSON_stringify P (error_msg text)) (log_line warning m))
       (\<lambda>m'. ok (ws_close client 1008 reason m'))"

definition admit :: "platform \<Rightarrow> conn_id \<Rightarrow> request \<Rightarrow> manager \<Rightarrow> outcome" where
  "admit P client req m =
     (let m1 = update_client client
                 (\<lambda>cl. cl\<lparr>authenticated := True, serverName := Some (or_unknown (q_name req))\<rparr>) m;
          m2 = log_line (LogConnected (serverType (heap m1 client)) (serverName (heap m1 client))) m1;
          m3 = m2\<lparr>clients := Set_add client (clients m2)\<rparr>
      in ws_send client
           (JSON_stringify P (connected_msg (serverType (heap m3 client)) (serverName (heap m3 client))))
           m3)"

definition on_connection :: "platform \<Rightarrow> string \<Rightarrow> conn_id \<Rightarrow> request \<Rightarrow> manager \<Rightarrow> outcome" where
  "on_connection P API_KEY client req m0 =
     (let m = update_client client (\<lambda>cl. cl\<lparr>isAlive := True, authenticated := False\<rparr>) m0;
          apiKey = q_api_key req;
          typeParam = q_type req
      in if apiKey \<noteq> Some API_KEY then
           reject P client WarnRejectedInvalidKey ''Authentication failed'' ''Authentication failed'' m
         else if typeParam = None \<or> typeParam = Some [] then
           reject P client WarnRejectedMissingType ''Missing type parameter'' ''Missing type parameter'' m
         else if typeParam = Some ''bungee'' then
           admit P client req (update_client client (\<lambda>cl. cl\<lparr>serverType := Some proxy\<rparr>) m)
         else if typeParam = Some ''paper'' then
           admit P client req (update_client client (\<lambda>cl. cl\<lparr>serverType := Some server\<rparr>) m)
         else
           reject P client WarnRejectedInvalidType ''Invalid type parameter. Use: bungee or paper''
             ''Invalid type parameter'' m)"

text \<open>
  \<open>on_connection\<close> is the callback for a request whose URL could be built.  The whole
  callback builds that URL first, from \<open>req.url\<close> and the \<open>Host\<close> header, outside any
  \<open>try\<close>: when the two do not make a valid URL, \<open>new URL\<close> throws \<open>TypeError\<close> and the
  exception leaves the callback, after the two flags of the client have been set and
  before anything is checked, sent or closed.  The argument \<open>parsed\<close> is the outcome of
  that construction: the error, or the query parameters.
\<close>

definition connection_callback ::
    "platform \<Rightarrow> string \<Rightarrow> conn_id \<Rightarrow> js_error + request \<Rightarrow> manager \<Rightarrow> outcome" where
  "connection_callback P API_KEY client parsed m0 =
     (case parsed of
        Inl e \<Rightarrow> (Some e, update_client client (\<lambda>cl. cl\<lparr>isAlive := True, authenticated := False\<rparr>) m0)
      | Inr req \<Rightarrow> on_connection P API_KEY client req m0)"

text \<open>The listeners that \<open>attach\<close> registers on an admitted client.\<close>

definition on_pong :: "conn_id \<Rightarrow> manager \<Rightarrow> manager" where
  "on_pong client m = update_client client (\<lambda>cl. cl\<lparr>isAlive := True\<rparr>) m"

definition on_close :: "conn_id \<Rightarrow> manager \<Rightarrow> manager" where
  "on_close client m =
     clients_delete client
       (log_line (LogDisconnected (serverType (heap m client)) (serverName (heap m client))) m)"

definition on_error :: "conn_id \<Rightarrow> manager \<Rightarrow> manager" where
  "on_error client m =
     clients_delete client
       (log_line (ErrSocket (serverType (heap m client)) (serverName (heap m client))) m)"

text \<open>
  The keepalive callback that \<open>attach\<close> runs every 30 seconds; \<open>keepalive_check\<close> is
  the function it applies to each member.
\<close>

definition keepalive_check :: "conn_id \<Rightarrow> manager \<Rightarrow> outcome" where
  "keepalive_check client s =
     (if \<not> isAlive (heap s client)
      then ok (ws_terminate client
                 (log_line (LogTerminating (serverType (heap s client)) (serverName (heap s client))) s))
      else ws_ping client (update_client client (\<lambda>cl. cl\<lparr>isAlive := False\<rparr>) s))"

definition keepalive :: "manager \<Rightarrow> outcome" where
  "keepalive m = forEach keepalive_check (clients m) m"

subsection \<open>The Bun edition: \<open>handleConnection\<close>\<close>

text \<open>
  The new client object wraps the socket; the cell \<open>client\<close> of the heap holds the
  wrapper's fields next to the state of its socket.  Here the URL is built from the
  \<open>url\<close> of a \<open>Request\<close> object alone, which is an absolute URL already.
\<close>

definition handleConnection :: "platform \<Rightarrow> conn_id \<Rightarrow> request \<Rightarrow> manager \<Rightarrow> outcome" where
  "handleConnection P client req m0 =
     (let typeParam = q_type req;
          nameParam = q_name req;
          m1 = update_client client
                 (\<lambda>cl. cl\<lparr>isAlive := True, authenticated := True,
                           serverType := Some (if typeParam = Some ''bungee'' then proxy else server),
                           serverName := Some (or_unknown nameParam)\<rparr>) m0;
          m2 = log_line (LogConnected (serverType (heap m1 client)) (serverName (heap m1 client))) m1;
          m3 = m2\<lparr>clients := Set_add client (clients m2)\<rparr>
      in ws_send client
           (JSON_stringify P (connected_msg (serverType (heap m3 client)) (serverName (heap m3 client))))
           m3)"

text \<open>
  The callback of the per-client \<open>pingInterval\<close>; in the other branch it cancels its own
  timer, which changes nothing in the manager.
\<close>

definition pingInterval :: "conn_id \<Rightarrow> manager \<Rightarrow> outcome" where
  "pingInterval client m =
     (if readyState (heap m client) = OPEN then ws_ping client m else ok m)"

subsection \<open>Delivery of socket events\<close>

text \<open>
  An event reaches the listeners of its socket; listeners exist on the clients that were
  admitted, which are those whose \<open>authenticated\<close> field is true.  A socket is \<open>CLOSED\<close>
  when its \<open>close\<close> event is emitted.  An \<open>error\<close> event without a listener is thrown
  by the event emitter.
\<close>

fun emit :: "conn_id \<times> ws_event \<Rightarrow> manager \<Rightarrow> outcome" where
  "emit (c, EvClose) m =
     (let m1 = update_client c (\<lambda>cl. cl\<lparr>readyState := CLOSED\<rparr>) m
      in if authenticated (heap m1 c) then ok (on_close c m1) else ok m1)"
| "emit (c, EvError) m =
     (if authenticated (heap m c) then ok (on_error c m)
      else (Some (JsError ''Unhandled error event''), m))"

text \<open>The transport emits one of the waiting events.\<close>

definition deliver :: "conn_id \<times> ws_event \<Rightarrow> manager \<Rightarrow> outcome" where
  "deliver e m = emit e (m\<lparr>pending := removeAll e (pending m)\<rparr>)"

text \<open>
  All waiting events emitted in the order in which they were queued, which is one of the
  orders the transport may choose.
\<close>

definition run_pending :: "manager \<Rightarrow> outcome" where
  "run_pending m = forEach emit (pending m) (m\<lparr>pending := []\<rparr>)"

section \<open>Punishment service\<close>

record PunishmentRow =
  row_id :: int
  player_uuid :: string
  punished_by_uuid :: "string option"
  punished_by_name :: "string option"
  row_type :: string
  row_reason :: "string option"
  duration_seconds :: "int option"
  created_at :: "string option"
  expires_at :: "string option"
  is_active :: bool
  row_executed :: bool

record Punishment =
  punishment_id :: int
  playerUuid :: string
  punishedByUuid :: "string option"
  punishedByName :: "string option"
  punishment_type :: string
  reason :: "string option"
  durationSeconds :: "int option"
  createdAt :: "string option"
  expiresAt :: "string option"
  isActive :: bool
  executed :: bool

definition punishmentRowToApi :: "PunishmentRow \<Rightarrow> Punishment" where
  "punishmentRowToApi row =
     \<lparr>punishment_id = row_id row, playerUuid = player_uuid row,
      punishedByUuid = punished_by_uuid row, punishedByName = punished_by_name row,
      punishment_type = row_type row, reason = row_reason row,
      durationSeconds = duration_seconds row, createdAt = created_at row,
      expiresAt = expires_at row, isActive = is_active row, executed = row_executed row\<rparr>"

text \<open>The \<open>punishments\<close> table, and the two statements that \<open>execute\<close> runs on it.\<close>

type_synonym punishments = "PunishmentRow list"

definition findById :: "punishments \<Rightarrow> int \<Rightarrow> Punishment option" where
  "findById db ident =
     (case filter (\<lambda>r. row_id r = ident) db of
        [] \<Rightarrow> None
      | r # rs \<Rightarrow> Some (punishmentRowToApi r))"

definition set_executed :: "punishments \<Rightarrow> int \<Rightarrow> punishments" where
  "set_executed db ident = map (\<lambda>r. if row_id r = ident then r\<lparr>row_executed := True\<rparr> else r) db"

definition notFound :: "piece list \<Rightarrow> js_error" where
  "notFound message = ApiError message 404"

record exec_result =
  success :: bool
  message :: string
  kicked :: bool

definition shouldKick :: "Punishment \<Rightarrow> bool" where
  "shouldKick punishment =
     (punishment_type punishment = ''BAN'' \<or> punishment_type punishment = ''TEMPBAN''
      \<or> punishment_type punishment = ''KICK'')"

definition execute ::
    "platform \<Rightarrow> string \<Rightarrow> int \<Rightarrow> punishments \<Rightarrow> manager \<Rightarrow> (js_error + exec_result) \<times> punishments \<times> manager" where
  "execute P now punishmentId db m =
     (case findById db punishmentId of
        None \<Rightarrow> (Inl (notFound [Txt ''Punishment with ID '', Num punishmentId, Txt '' not found'']), db, m)
      | Some punishment \<Rightarrow>
          (if shouldKick punishment then
             (case notifyPunishmentExecute P now (playerUuid punishment) (punishment_type punishment)
                     (reason punishment) m of
                (Some e, m') \<Rightarrow> (Inl e, db, m')
              | (None, m') \<Rightarrow>
                  (Inr \<lparr>success = True, message = ''Punishment executed successfully'', kicked = True\<rparr>,
                   set_executed db punishmentId, m'))
           else
             (Inr \<lparr>success = True, message = ''Punishment executed successfully'', kicked = False\<rparr>,
              set_executed db punishmentId, m)))"

section \<open>HTTP authentication\<close>

text \<open>
  \<open>authMiddleware\<close>, the check of the same \<open>API_KEY\<close> on the HTTP routes: with no key
  configured it lets every request through.
\<close>

datatype http_auth = Next | Unauthorized string

definition authMiddleware :: "string \<Rightarrow> string option \<Rightarrow> http_auth" where
  "authMiddleware API_KEY apiKey =
     (if API_KEY = [] then Next
      else if apiKey = None \<or> apiKey = Some [] then Unauthorized ''Unauthorized: Missing API key''
      else if apiKey \<noteq> Some API_KEY then Unauthorized ''Unauthorized: Invalid API key''
      else Next)"

section \<open>Recipient sets\<close>

text \<open>
  The members that a dispatch loop writes to: those that pass the loop's test \<open>g\<close> and
  whose socket is \<open>OPEN\<close>; and the state after \<open>send\<close> has been called once on each.
\<close>

definition recipients :: "(conn_id \<Rightarrow> client \<Rightarrow> bool) \<Rightarrow> manager \<Rightarrow> conn_id list" where
  "recipients g m = filter (\<lambda>c. g c (heap m c) \<and> readyState (heap m c) = OPEN) (clients m)"

fun queue_failures ::
    "(conn_id \<Rightarrow> client) \<Rightarrow> conn_id list \<Rightarrow> (conn_id \<times> ws_event) list \<Rightarrow> (conn_id \<times> ws_event) list" where
  "queue_failures h [] q = q"
| "queue_failures h (c # cs) q = queue_failures h cs (queue_failure (h c) c q)"

definition after_sends :: "(conn_id \<Rightarrow> client \<Rightarrow> bool) \<Rightarrow> string \<Rightarrow> manager \<Rightarrow> manager" where
  "after_sends g d m =
     m\<lparr>wire := wire m @ map (\<lambda>c. Send c d) (recipients g m),
       pending := queue_failures (heap m) (recipients g m) (pending m)\<rparr>"

section \<open>A dispatch and a failed write\<close>



section \<open>Reachable registries\<close>

text \<open>
  The registry invariant: the members are pairwise different objects, and each has been
  admitted (which is when its listeners are registered) and carries a role.
\<close>

definition registry_ok :: "manager \<Rightarrow> bool" where
  "registry_ok m =
     (distinct (clients m) \<and>
      (\<forall>c\<in>set (clients m). authenticated (heap m c) \<and> serverType (heap m c) \<noteq> None))"

text \<open>
  The states of the \<open>ws\<close> edition: it starts with an empty registry; a connection arrives
  on a new socket object; the transport delivers a pong or a frame, or emits one of the
  waiting events; the keepalive timer fires; the services dispatch.
\<close>

inductive reachable_ws :: "platform \<Rightarrow> string \<Rightarrow> manager \<Rightarrow> bool"
  for P :: platform and API_KEY :: string where
    ws_start: "clients m = [] \<Longrightarrow> reachable_ws P API_KEY m"
  | ws_connection: "reachable_ws P API_KEY m \<Longrightarrow> client \<notin> set (clients m) \<Longrightarrow>
       reachable_ws P API_KEY (snd (connection_callback P API_KEY client parsed m))"
  | ws_pong: "reachable_ws P API_KEY m \<Longrightarrow> reachable_ws P API_KEY (on_pong client m)"
  | ws_message: "reachable_ws P API_KEY m \<Longrightarrow>
       reachable_ws P API_KEY (snd (handleMessage P client data m))"
  | ws_tick: "reachable_ws P API_KEY m \<Longrightarrow> reachable_ws P API_KEY (snd (keepalive m))"
  | ws_event: "reachable_ws P API_KEY m \<Longrightarrow> e \<in> set (pending m) \<Longrightarrow>
       reachable_ws P API_KEY (snd (deliver e m))"
  | ws_servers: "reachable_ws P API_KEY m \<Longrightarrow> reachable_ws P API_KEY (snd (sendToServers P msg m))"
  | ws_proxy: "reachable_ws P API_KEY m \<Longrightarrow> reachable_ws P API_KEY (snd (sendToProxy P msg m))"
  | ws_broadcast: "reachable_ws P API_KEY m \<Longrightarrow> reachable_ws P API_KEY (snd (broadcast P msg ex m))"

code_pred reachable_ws .

text \<open>The states of the Bun edition, in the same way.\<close>

inductive reachable_bun :: "platform \<Rightarrow> manager \<Rightarrow> bool" for P :: platform where
    bun_start: "clients m = [] \<Longrightarrow> reachable_bun P m"
  | bun_connection: "reachable_bun P m \<Longrightarrow> client \<notin> set (clients m) \<Longrightarrow>
       reachable_bun P (snd (handleConnection P client req m))"
  | bun_message: "reachable_bun P m \<Longrightarrow> reachable_bun P (snd (handleMessage P client data m))"
  | bun_tick: "reachable_bun P m \<Longrightarrow> reachable_bun P (snd (pingInterval client m))"
  | bun_event: "reachable_bun P m \<Longrightarrow> e \<in> set (pending m) \<Longrightarrow>
       reachable_bun P (snd (deliver e m))"
  | bun_servers: "reachable_bun P m \<Longrightarrow> reachable_bun P (snd (sendToServers P msg m))"
  | bun_proxy: "reachable_bun P m \<Longrightarrow> reachable_bun P (snd (sendToProxy P msg m))"
  | bun_broadcast: "reachable_bun P m \<Longrightarrow> reachable_bun P (snd (broadcast P msg ex m))"

code_pred reachable_bun .

text \<open>What one keepalive period does to the object of a member.\<close>

definition keepalive_cell :: "client \<Rightarrow> client" where
  "keepalive_cell cl =
     (if \<not> isAlive cl then (if readyState cl = CLOSED then cl else cl\<lparr>readyState := CLOSING\<rparr>)
      else cl\<lparr>isAlive := False\<rparr>)"

text \<open>One keepalive period in which the client \<open>c\<close> answers the probe.\<close>

definition answered_period :: "conn_id \<Rightarrow> manager \<Rightarrow> manager" where
  "answered_period c m = on_pong c (snd (keepalive m))"

section \<open>Concrete inputs\<close>

text \<open>
  A small platform and two managers on which the definitions are evaluated.  The
  platform's \<open>JSON.stringify\<close> shows a message by its \<open>type\<close> string; its
  \<open>JSON.parse\<close> knows the texts \<open>null\<close> and \<open>{}\<close>.  In \<open>demo_manager\<close> client 0
  is a proxy, clients 1 and 2 are game servers, and the transport of client 2 has failed.
\<close>

definition demo_stringify :: "json \<Rightarrow> string" where
  "demo_stringify j = (case j of JObj ((k, JStr t) # kvs) \<Rightarrow> t | JNull \<Rightarrow> ''null'' | _ \<Rightarrow> ''?'')"

definition demo_parse :: "string \<Rightarrow> js_error + json" where
  "demo_parse s = (if s = ''null'' then Inr JNull else if s = ''{}'' then Inr (JObj []) else Inl SyntaxError)"

definition demo_ToString :: "json option \<Rightarrow> js_error + string" where
  "demo_ToString v = (case v of None \<Rightarrow> Inr ''undefined'' | Some (JStr s) \<Rightarrow> Inr s | Some JNull \<Rightarrow> Inr ''null'' | _ \<Rightarrow> Inr ''[object Object]'')"

definition demo_platform :: platform where
  "demo_platform = \<lparr>JSON_parse = demo_parse, JSON_stringify = demo_stringify, ToString = demo_ToString\<rparr>"

definition fresh_socket :: client where
  "fresh_socket = \<lparr>readyState = OPEN, failure = None, isAlive = False, serverType = None,
                    serverName = None, authenticated = False\<rparr>"

definition demo_client :: "server_type \<Rightarrow> ws_event option \<Rightarrow> client" where
  "demo_client t f = \<lparr>readyState = OPEN, failure = f, isAlive = True, serverType = Some t,
                      serverName = Some ''unknown'', authenticated = True\<rparr>"

definition empty_manager :: manager where
  "empty_manager = \<lparr>clients = [], heap = (\<lambda>c. fresh_socket), wire = [], console = [], pending = []\<rparr>"

definition demo_manager :: manager where
  "demo_manager = \<lparr>clients = [0, 1, 2],
       heap = (\<lambda>c. if c = 0 then demo_client proxy None else if c = 1 then demo_client server None
                    else if c = 2 then demo_client server (Some EvClose) else fresh_socket),
       wire = [], console = [], pending = []\<rparr>"

definition demo_row :: "int \<Rightarrow> string \<Rightarrow> PunishmentRow" where
  "demo_row i t = \<lparr>row_id = i, player_uuid = ''u1'', punished_by_uuid = None, punished_by_name = None,
       row_type = t, row_reason = Some ''griefing'', duration_seconds = None, created_at = None,
       expires_at = None, is_active = True, row_executed = False\<rparr>"

definition demo_db :: punishments where
  "demo_db = [demo_row 1 ''BAN'', demo_row 2 ''MUTE'']"

definition demo_req :: "string option \<Rightarrow> string option \<Rightarrow> request" where
  "demo_req k t = \<lparr>q_api_key = k, q_type = t, q_name = None\<rparr>"

section \<open>Waiting events\<close>

lemma set_queue_event: "set (queue_event e q) = insert e (set q)"
  by (auto simp: queue_event_def)



section \<open>Routing\<close>

lemma forEach_guarded_send:
  "forEach (\<lambda>client s. if g client (heap s client) \<and> readyState (heap s client) = OPEN
                        then ws_send client d s else (None, s)) cs m
   = (None, m\<lparr>wire := wire m @ map (\<lambda>c. Send c d)
                   (filter (\<lambda>c. g c (heap m c) \<and> readyState (heap m c) = OPEN) cs),
              pending := queue_failures (heap m)
                   (filter (\<lambda>c. g c (heap m c) \<and> readyState (heap m c) = OPEN) cs) (pending m)\<rparr>)"
proof (induction cs arbitrary: m)
  case Nil
  show ?case by simp
next
  case (Cons c cs)
  show ?case
    by (simp add: Cons.IH ws_send_def ws_write_def)
qed

lemma sent_to_append_sends:
  "distinct xs \<Longrightarrow>
   sent_to c (m\<lparr>wire := wire m @ map (\<lambda>c. Send c d) xs, pending := q\<rparr>)
     = sent_to c m @ (if c \<in> set xs then [d] else [])"
proof (induction xs arbitrary: m q)
  case Nil
  show ?case by (simp add: sent_to_def)
next
  case (Cons x xs)
  have "sent_to c (m\<lparr>wire := wire m @ map (\<lambda>c. Send c d) (x # xs), pending := q\<rparr>)
        = sent_to c ((m\<lparr>wire := wire m @ [Send x d]\<rparr>)\<lparr>wire := wire (m\<lparr>wire := wire m @ [Send x d]\<rparr>) @ map (\<lambda>c. Send c d) xs, pending := q\<rparr>)"
    by (simp add: sent_to_def)
  also have "\<dots> = sent_to c (m\<lparr>wire := wire m @ [Send x d]\<rparr>) @ (if c \<in> set xs then [d] else [])"
    using Cons.prems by (intro Cons.IH) simp
  finally show ?case using Cons.prems by (auto simp: sent_to_def)
qed

lemma sendToServers_eq:
  "sendToServers P msg m = (None, after_sends (\<lambda>c cl. serverType cl = Some server) (JSON_stringify P msg) m)"
  unfolding sendToServers_def Let_def after_sends_def recipients_def
  using forEach_guarded_send [where g = "\<lambda>c cl. serverType cl = Some server" and cs = "clients m" and m = m]
  by simp

lemma sendToProxy_eq:
  "sendToProxy P msg m = (None, after_sends (\<lambda>c cl. serverType cl = Some proxy) (JSON_stringify P msg) m)"
  unfolding sendToProxy_def Let_def after_sends_def recipients_def
  using forEach_guarded_send [where g = "\<lambda>c cl. serverType cl = Some proxy" and cs = "clients m" and m = m]
  by simp

lemma broadcast_eq:
  "broadcast P msg ex m = (None, after_sends (\<lambda>c cl. Some c \<noteq> ex) (JSON_stringify P msg) m)"
  unfolding broadcast_def Let_def after_sends_def recipients_def
  using forEach_guarded_send [where g = "\<lambda>c cl. Some c \<noteq> ex" and cs = "clients m" and m = m]
  by simp

lemma sent_to_after_sends:
  "distinct (clients m) \<Longrightarrow>
   sent_to c (after_sends g d m) =
     sent_to c m @ (if c \<in> set (clients m) \<and> g c (heap m c) \<and> readyState (heap m c) = OPEN then [d] else [])"
  unfolding after_sends_def
  by (simp add: sent_to_append_sends recipients_def)


text \<open>
  Claim C1.  In every registry state each dispatch returns normally and calls \<open>send\<close>
  exactly once, with the encoded event, on every member of its role subset whose socket
  is open, and on no other connection: \<open>GRANT_CHANGE\<close>, \<open>PLAYER_UPDATE\<close> and
  \<open>PRIVATE_MESSAGE\<close> go to the open game servers, \<open>RANK_CHANGE\<close> to every open
  member, \<open>PUNISH_EXECUTE\<close> to the open proxies.
\<close>

theorem role_routing:
  assumes "distinct (clients m)"
  shows
    "(fst (notifyGrantChange P now uuid m) = None \<and>
      sent_to c (snd (notifyGrantChange P now uuid m)) =
        sent_to c m @
          (if c \<in> set (clients m) \<and> serverType (heap m c) = Some server \<and> readyState (heap m c) = OPEN
           then [JSON_stringify P (grant_change_msg uuid now)] else [])) \<and>
     (fst (notifyPlayerUpdate P now uuid m) = None \<and>
      sent_to c (snd (notifyPlayerUpdate P now uuid m)) =
        sent_to c m @
          (if c \<in> set (clients m) \<and> serverType (heap m c) = Some server \<and> readyState (heap m c) = OPEN
           then [JSON_stringify P (player_update_msg uuid now)] else [])) \<and>
     (fst (sendPrivateMessage P now targetPlayer senderName text m) = None \<and>
      sent_to c (snd (sendPrivateMessage P now targetPlayer senderName text m)) =
        sent_to c m @
          (if c \<in> set (clients m) \<and> serverType (heap m c) = Some server \<and> readyState (heap m c) = OPEN
           then [JSON_stringify P (private_message_msg targetPlayer senderName text now)] else [])) \<and>
     (fst (notifyRankChange P now rankId m) = None \<and>
      sent_to c (snd (notifyRankChange P now rankId m)) =
        sent_to c m @
          (if c \<in> set (clients m) \<and> readyState (heap m c) = OPEN
           then [JSON_stringify P (rank_change_msg rankId now)] else [])) \<and>
     (fst (notifyPunishmentExecute P now uuid punishmentType why m) = None \<and>
      sent_to c (snd (notifyPunishmentExecute P now uuid punishmentType why m)) =
        sent_to c m @
          (if c \<in> set (clients m) \<and> serverType (heap m c) = Some proxy \<and> readyState (heap m c) = OPEN
           then [JSON_stringify P (punish_execute_msg uuid punishmentType why now)] else []))"
  using assms
  by (simp add: notifyGrantChange_def notifyPlayerUpdate_def sendPrivateMessage_def
      notifyRankChange_def notifyPunishmentExecute_def sendToServers_eq sendToProxy_eq
      broadcast_eq sent_to_after_sends)

lemma demo_heap [simp]:
  "heap demo_manager 0 = demo_client proxy None"
  "heap demo_manager (Suc 0) = demo_client server None"
  "heap demo_manager 2 = demo_client server (Some EvClose)"
  "clients demo_manager = [0, 1, 2]"
  "wire demo_manager = []"
  by (simp_all add: demo_manager_def)

text \<open>The routing theorem at \<open>demo_manager\<close>.\<close>

theorem role_routing_witness:
  "distinct (clients demo_manager) \<and>
   sent_to 1 (snd (notifyGrantChange demo_platform ''2026-01-01T00:00:00.000Z'' ''u1'' demo_manager))
     = [''GRANT_CHANGE''] \<and>
   sent_to 0 (snd (notifyGrantChange demo_platform ''2026-01-01T00:00:00.000Z'' ''u1'' demo_manager))
     = [] \<and>
   sent_to 0 (snd (notifyRankChange demo_platform ''2026-01-01T00:00:00.000Z'' ''vip'' demo_manager))
     = [''RANK_CHANGE''] \<and>
   sent_to 0 (snd (notifyPunishmentExecute demo_platform ''2026-01-01T00:00:00.000Z'' ''u1'' ''BAN'' None demo_manager))
     = [''PUNISH_EXECUTE''] \<and>
   sent_to 2 (snd (notifyPunishmentExecute demo_platform ''2026-01-01T00:00:00.000Z'' ''u1'' ''BAN'' None demo_manager))
     = []"
proof -
  have d: "distinct (clients demo_manager)" by simp
  note r = role_routing [OF d, where P = demo_platform and now = "''2026-01-01T00:00:00.000Z''"
      and uuid = "''u1''" and rankId = "''vip''" and punishmentType = "''BAN''" and why = None]
  show ?thesis
    using d r [where c = 0] r [where c = 1] r [where c = 2]
    by (simp add: sent_to_def demo_client_def demo_platform_def demo_stringify_def
        grant_change_msg_def rank_change_msg_def punish_execute_msg_def)
qed

section \<open>Removal from the registry\<close>

text \<open>
  Claim C9.  Deleting a client from the registry a second time changes nothing and
  reports \<open>false\<close> instead of throwing; this holds for the \<open>close\<close> and \<open>error\<close>
  listeners in either order, which leave the same members and the same client objects
  as the first of them alone.
\<close>

theorem remove_idempotent:
  "Set_delete c (snd (Set_delete c cs)) = (False, snd (Set_delete c cs)) \<and>
   clients_delete c (clients_delete c m) = clients_delete c m \<and>
   clients (on_close c (on_close c m)) = clients (on_close c m) \<and>
   clients (on_error c (on_close c m)) = clients (on_close c m) \<and>
   clients (on_close c (on_error c m)) = clients (on_error c m) \<and>
   clients (on_error c (on_error c m)) = clients (on_error c m) \<and>
   heap (on_error c (on_close c m)) = heap (on_close c m) \<and>
   heap (on_close c (on_error c m)) = heap (on_error c m)"
  by (simp add: Set_delete_def clients_delete_def on_close_def on_error_def log_line_def)

section \<open>Malformed inbound frames\<close>

text \<open>
  Claim C8.  When \<open>JSON.parse\<close> throws on an inbound frame, \<open>handleMessage\<close> returns
  normally and its only effect is one line on the error console: nothing is written to
  any socket, the registry and every client object (so also the sender's membership and
  the state of its socket) are as before.
\<close>

theorem decode_failure_dropped:
  assumes "JSON_parse P data = Inl e"
  shows "handleMessage P client data m = (None, m\<lparr>console := console m @ [ErrParse e]\<rparr>) \<and>
         wire (snd (handleMessage P client data m)) = wire m \<and>
         clients (snd (handleMessage P client data m)) = clients m \<and>
         heap (snd (handleMessage P client data m)) = heap m \<and>
         pending (snd (handleMessage P client data m)) = pending m"
  using assms by (simp add: handleMessage_def catch_parse_def log_line_def)

text \<open>A frame that is not JSON, received from client 1 of \<open>demo_manager\<close>.\<close>

theorem decode_failure_dropped_witness:
  "JSON_parse demo_platform ''{bad'' = Inl SyntaxError \<and>
   handleMessage demo_platform 1 ''{bad'' demo_manager
     = (None, demo_manager\<lparr>console := [ErrParse SyntaxError]\<rparr>) \<and>
   1 \<in> set (clients (snd (handleMessage demo_platform 1 ''{bad'' demo_manager))) \<and>
   readyState (heap (snd (handleMessage demo_platform 1 ''{bad'' demo_manager)) 1) = OPEN"
proof -
  have h: "JSON_parse demo_platform ''{bad'' = Inl SyntaxError"
    by (simp add: demo_platform_def demo_parse_def)
  show ?thesis
    using h decode_failure_dropped [OF h, of 1 demo_manager]
    by (simp add: demo_manager_def demo_client_def)
qed

section \<open>Executing a punishment\<close>

lemma findById_set_executed:
  "findById db i = Some p \<Longrightarrow> findById (set_executed db i) i = Some (p\<lparr>executed := True\<rparr>)"
proof (induction db)
  case Nil
  then show ?case by (simp add: findById_def)
next
  case (Cons r db)
  then show ?case
    by (auto simp: findById_def set_executed_def punishmentRowToApi_def split: list.splits if_splits)
qed

text \<open>
  Claim C10, as amended.  For a punishment that exists, \<open>execute\<close> dispatches
  \<open>PUNISH_EXECUTE\<close> exactly when its type is \<open>BAN\<close>, \<open>TEMPBAN\<close> or \<open>KICK\<close>, and the
  dispatch writes the event to the open proxies and to nobody else; for every other type
  the manager is left as it was.  In both cases the row is marked executed and the result
  is a success whose \<open>kicked\<close> says whether the type is one of the three, that is whether
  the dispatch was made, also when no open proxy is registered and nothing is written.
  For an unknown id it throws not-found and changes neither the table nor the manager.
\<close>

theorem execute_kicks_only_bans:
  "(findById db i = None \<longrightarrow>
      execute P now i db m =
        (Inl (ApiError [Txt ''Punishment with ID '', Num i, Txt '' not found''] 404), db, m)) \<and>
   (\<forall>p. findById db i = Some p \<longrightarrow>
      shouldKick p = (punishment_type p \<in> {''BAN'', ''TEMPBAN'', ''KICK''}) \<and>
      execute P now i db m =
        (Inr \<lparr>success = True, message = ''Punishment executed successfully'', kicked = shouldKick p\<rparr>,
         set_executed db i,
         if shouldKick p
         then snd (notifyPunishmentExecute P now (playerUuid p) (punishment_type p) (reason p) m)
         else m) \<and>
      findById (set_executed db i) i = Some (p\<lparr>executed := True\<rparr>) \<and>
      (distinct (clients m) \<longrightarrow>
         sent_to c (snd (snd (execute P now i db m))) =
           sent_to c m @
             (if shouldKick p \<and> c \<in> set (clients m) \<and> serverType (heap m c) = Some proxy
                 \<and> readyState (heap m c) = OPEN
              then [JSON_stringify P (punish_execute_msg (playerUuid p) (punishment_type p) (reason p) now)]
              else [])))"
  by (auto simp: execute_def notFound_def notifyPunishmentExecute_def sendToProxy_eq shouldKick_def
      findById_set_executed sent_to_after_sends)

lemma demo_find:
  "findById demo_db 1 = Some (punishmentRowToApi (demo_row 1 ''BAN''))"
  "findById demo_db 2 = Some (punishmentRowToApi (demo_row 2 ''MUTE''))"
  "findById demo_db 3 = None"
  by (simp_all add: findById_def demo_db_def demo_row_def)

text \<open>
  \<open>execute\<close> on \<open>demo_db\<close>: id 1 is a \<open>BAN\<close>, id 2 a \<open>MUTE\<close>, id 3 does not
  exist.
\<close>

theorem execute_kicks_only_bans_witness:
  "findById demo_db 3 = None \<and>
   fst (execute demo_platform ''t'' 3 demo_db demo_manager) = Inl (ApiError [Txt ''Punishment with ID '', Num 3, Txt '' not found''] 404) \<and>
   snd (execute demo_platform ''t'' 3 demo_db demo_manager) = (demo_db, demo_manager) \<and>
   findById demo_db 1 = Some (punishmentRowToApi (demo_row 1 ''BAN'')) \<and>
   distinct (clients demo_manager) \<and>
   kicked (projr (fst (execute demo_platform ''t'' 1 demo_db demo_manager))) \<and>
   sent_to 0 (snd (snd (execute demo_platform ''t'' 1 demo_db demo_manager))) = [''PUNISH_EXECUTE''] \<and>
   sent_to 1 (snd (snd (execute demo_platform ''t'' 1 demo_db demo_manager))) = [] \<and>
   findById demo_db 2 = Some (punishmentRowToApi (demo_row 2 ''MUTE'')) \<and>
   \<not> kicked (projr (fst (execute demo_platform ''t'' 2 demo_db demo_manager))) \<and>
   snd (snd (execute demo_platform ''t'' 2 demo_db demo_manager)) = demo_manager \<and>
   map row_executed (fst (snd (execute demo_platform ''t'' 2 demo_db demo_manager))) = [False, True]"
proof -
  note e = execute_kicks_only_bans [where P = demo_platform and now = "''t''" and db = demo_db
      and m = demo_manager]
  have d: "distinct (clients demo_manager)" by simp
  note k3 = e [where i = 3, THEN conjunct1, rule_format, OF demo_find(3)]
  note k1 = e [where i = 1, THEN conjunct2, rule_format, OF demo_find(1)]
  note k2 = e [where i = 2, THEN conjunct2, rule_format, OF demo_find(2)]
  have s1: "shouldKick (punishmentRowToApi (demo_row 1 ''BAN''))"
    and s2: "\<not> shouldKick (punishmentRowToApi (demo_row 2 ''MUTE''))"
    by (simp_all add: shouldKick_def punishmentRowToApi_def demo_row_def)
  note k1e = k1 [THEN conjunct2, THEN conjunct1]
  note k1s = k1 [THEN conjunct2, THEN conjunct2, THEN conjunct2, rule_format, OF d]
  note k2e = k2 [THEN conjunct2, THEN conjunct1]
  have x1: "kicked (projr (fst (execute demo_platform ''t'' 1 demo_db demo_manager)))"
    using k1e s1 by simp
  have x2: "sent_to 0 (snd (snd (execute demo_platform ''t'' 1 demo_db demo_manager))) = [''PUNISH_EXECUTE'']"
    using k1s [of 0] s1
    by (simp add: punishmentRowToApi_def demo_row_def demo_client_def
        demo_platform_def demo_stringify_def punish_execute_msg_def sent_to_def)
  have x3: "sent_to 1 (snd (snd (execute demo_platform ''t'' 1 demo_db demo_manager))) = []"
    using k1s [of 1] s1 by (simp add: demo_client_def sent_to_def)
  have x4: "\<not> kicked (projr (fst (execute demo_platform ''t'' 2 demo_db demo_manager)))"
    using k2e s2 by simp
  have x5: "snd (snd (execute demo_platform ''t'' 2 demo_db demo_manager)) = demo_manager"
    using k2e s2 by simp
  have x6: "map row_executed (fst (snd (execute demo_platform ''t'' 2 demo_db demo_manager))) = [False, True]"
    using k2e by (simp add: set_executed_def demo_db_def demo_row_def)
  show ?thesis
    using d demo_find k3 x1 x2 x3 x4 x5 x6 by simp
qed

text \<open>
  Against claim C10 as it was stated.  With no connection in the registry, executing the
  \<open>BAN\<close> of \<open>demo_db\<close> returns \<open>kicked\<close> true although the event is sent to
  nobody.
\<close>

theorem execute_kicked_without_recipient:
  "findById demo_db 1 = Some (punishmentRowToApi (demo_row 1 ''BAN'')) \<and>
   clients empty_manager = [] \<and>
   fst (execute demo_platform ''t'' 1 demo_db empty_manager) =
     Inr \<lparr>success = True, message = ''Punishment executed successfully'', kicked = True\<rparr> \<and>
   wire (snd (snd (execute demo_platform ''t'' 1 demo_db empty_manager))) = []"
  by (simp add: demo_find execute_def shouldKick_def punishmentRowToApi_def demo_row_def
      notifyPunishmentExecute_def sendToProxy_eq after_sends_def recipients_def empty_manager_def)

section \<open>Rebroadcast of inbound frames\<close>

text \<open>
  The log line of \<open>handleMessage\<close> reads \<open>message.type\<close> inside the \<open>try\<close> block.
  For the frame \<open>null\<close>, which \<open>JSON.parse\<close> accepts, that read throws, the \<open>catch\<close>
  block reports a parse failure, and \<open>broadcast\<close> is never reached.
\<close>

lemma null_frame_caught:
  "JSON_parse P data = Inr JNull \<Longrightarrow>
   handleMessage P a data m = (None, m\<lparr>console := console m @ [ErrParse TypeError]\<rparr>)"
  by (simp add: handleMessage_def catch_parse_def log_line_def)

lemma sent_to_log_line [simp]: "sent_to c (log_line l m) = sent_to c m"
  by (simp add: sent_to_def log_line_def)

text \<open>
  A decoded frame whose log line can be evaluated is handed, encoded again, exactly once
  to every other open member, and not to its sender.
\<close>

lemma rebroadcast_excludes_sender:
  assumes "JSON_parse P data = Inr msg" and "get_type msg = Inr t" and "ToString P t = Inr ts"
    and "distinct (clients m)"
  shows "fst (handleMessage P a data m) = None \<and>
         sent_to c (snd (handleMessage P a data m)) =
           sent_to c m @
             (if c \<in> set (clients m) \<and> c \<noteq> a \<and> readyState (heap m c) = OPEN
              then [JSON_stringify P msg] else [])"
proof -
  let ?m1 = "log_line (LogReceived ts (serverType (heap m a)) (serverName (heap m a))) m"
  have h: "handleMessage P a data m
           = (None, after_sends (\<lambda>c cl. Some c \<noteq> Some a) (JSON_stringify P msg) ?m1)"
    using assms(1-3) by (simp add: handleMessage_def broadcast_eq)
  have d: "distinct (clients ?m1)" using assms(4) by (simp add: log_line_def)
  have e: "clients ?m1 = clients m" "heap ?m1 = heap m" by (simp_all add: log_line_def)
  show ?thesis
    unfolding h using sent_to_after_sends [OF d, of c "\<lambda>c cl. Some c \<noteq> Some a" "JSON_stringify P msg"]
    by (simp add: e)
qed

text \<open>
  Claim C2.  With clients 0, 1 and 2 registered and open, the frame \<open>null\<close> sent by
  client 0 decodes to \<open>null\<close>, and yet nothing is sent to clients 1 and 2: the only
  effect is a parse-failure line on the console.
\<close>

theorem null_frame_not_rebroadcast:
  "JSON_parse demo_platform ''null'' = Inr JNull \<and>
   set (clients demo_manager) = {0, 1, 2} \<and>
   readyState (heap demo_manager 1) = OPEN \<and> readyState (heap demo_manager 2) = OPEN \<and>
   handleMessage demo_platform 0 ''null'' demo_manager
     = (None, demo_manager\<lparr>console := [ErrParse TypeError]\<rparr>) \<and>
   sent_to 1 (snd (handleMessage demo_platform 0 ''null'' demo_manager)) = [] \<and>
   sent_to 2 (snd (handleMessage demo_platform 0 ''null'' demo_manager)) = []"
proof -
  have p: "JSON_parse demo_platform ''null'' = Inr JNull"
    by (simp add: demo_platform_def demo_parse_def)
  have c: "console demo_manager = []" by (simp add: demo_manager_def)
  show ?thesis
    using p null_frame_caught [OF p, of 0 demo_manager] c
    by (auto simp: sent_to_def demo_client_def)
qed

section \<open>Handshake\<close>

text \<open>
  \<open>handleConnection\<close> of the Bun edition reads neither the key nor the validity of the
  role token: every attempt becomes a member, with role \<open>server\<close> unless the token is
  \<open>bungee\<close>.
\<close>

lemma handleConnection_always_admits:
  "client \<in> set (clients (snd (handleConnection P client req m))) \<and>
   serverType (heap (snd (handleConnection P client req m)) client)
     = Some (if q_type req = Some ''bungee'' then proxy else server) \<and>
   authenticated (heap (snd (handleConnection P client req m)) client)"
  by (simp add: handleConnection_def Let_def ws_send_def ws_write_def update_client_def
      log_line_def Set_add_def split: ready_state.split)

text \<open>
  Claim C3.  In the Bun edition a connection attempt with the role token \<open>invalid\<close> is
  admitted as a game server: it becomes a member, receives the \<open>CONNECTED\<close> frame, no
  \<open>ERROR\<close> frame is sent and the socket is not closed.
\<close>

theorem handleConnection_admits_invalid_role:
  "handleConnection demo_platform 0 (demo_req None (Some ''invalid'')) empty_manager =
     (None, empty_manager\<lparr>
        clients := [0],
        heap := (heap empty_manager)(0 := \<lparr>readyState = OPEN, failure = None, isAlive = True,
                   serverType = Some server, serverName = Some ''unknown'', authenticated = True\<rparr>),
        wire := [Send 0 ''CONNECTED''],
        console := [LogConnected (Some server) (Some ''unknown'')]\<rparr>)"
  by (simp add: handleConnection_def Let_def ws_send_def ws_write_def update_client_def
      log_line_def Set_add_def empty_manager_def fresh_socket_def demo_req_def or_unknown_def
      connected_msg_def demo_platform_def demo_stringify_def queue_failure_def)


text \<open>
  For a request whose URL could be built, the \<open>connection\<close> callback of the \<open>ws\<close>
  edition admits an attempt exactly when its key equals \<open>API_KEY\<close> and its role token
  is \<open>bungee\<close> or \<open>paper\<close>; every other such attempt gets one \<open>ERROR\<close> frame, is
  closed with code 1008 and leaves the registry as it was.  When the URL cannot be built
  the callback throws: the registry is as it was, but no frame is sent and the socket is
  not closed.
\<close>

lemma connection_callback_bad_url:
  "connection_callback P API_KEY c (Inl e) m =
     (Some e, update_client c (\<lambda>cl. cl\<lparr>isAlive := True, authenticated := False\<rparr>) m) \<and>
   clients (snd (connection_callback P API_KEY c (Inl e) m)) = clients m \<and>
   wire (snd (connection_callback P API_KEY c (Inl e) m)) = wire m"
  by (simp add: connection_callback_def update_client_def)

lemma on_connection_members:
  "clients (snd (on_connection P API_KEY c req m)) =
     (if q_api_key req = Some API_KEY \<and> (q_type req = Some ''bungee'' \<or> q_type req = Some ''paper'')
      then Set_add c (clients m) else clients m)"
  by (auto simp: on_connection_def Let_def reject_def admit_def andThen_def ok_def ws_send_def
      ws_write_def ws_close_def update_client_def log_line_def split: ready_state.split)

lemma on_connection_rejects_bad_role:
  assumes "q_type req \<noteq> Some ''bungee''" and "q_type req \<noteq> Some ''paper''"
    and "readyState (heap m c) = OPEN"
  shows "fst (on_connection P API_KEY c req m) = None \<and>
         clients (snd (on_connection P API_KEY c req m)) = clients m \<and>
         (\<exists>text why. wire (snd (on_connection P API_KEY c req m)) =
            wire m @ [Send c (JSON_stringify P (error_msg text)), Close c 1008 why]) \<and>
         serverType (heap (snd (on_connection P API_KEY c req m)) c) = serverType (heap m c)"
  using assms
  by (auto simp: on_connection_def Let_def reject_def andThen_def ok_def ws_send_def
      ws_write_def ws_close_def update_client_def log_line_def)

lemma on_connection_rejects_bad_key:
  assumes "q_api_key req \<noteq> Some API_KEY" and "readyState (heap m c) = OPEN"
  shows "fst (on_connection P API_KEY c req m) = None \<and>
         clients (snd (on_connection P API_KEY c req m)) = clients m \<and>
         wire (snd (on_connection P API_KEY c req m)) =
            wire m @ [Send c (JSON_stringify P (error_msg ''Authentication failed'')),
                      Close c 1008 ''Authentication failed'']"
  using assms
  by (auto simp: on_connection_def Let_def reject_def andThen_def ok_def ws_send_def
      ws_write_def ws_close_def update_client_def log_line_def)

lemma connection_callback_members:
  "clients (snd (connection_callback P API_KEY c parsed m)) =
     (case parsed of
        Inl e \<Rightarrow> clients m
      | Inr req \<Rightarrow>
          (if q_api_key req = Some API_KEY \<and> (q_type req = Some ''bungee'' \<or> q_type req = Some ''paper'')
           then Set_add c (clients m) else clients m))"
  by (simp add: connection_callback_def on_connection_members update_client_def split: sum.split)

text \<open>The HTTP middleware lets every request through when no key is configured.\<close>

lemma authMiddleware_no_key: "authMiddleware (API_KEY_of_env None) k = Next"
  by (simp add: authMiddleware_def API_KEY_of_env_def)

text \<open>
  Claim C4.  In the \<open>ws\<close> edition with no \<open>API_KEY\<close> in the environment, a role-valid
  attempt that supplies the secret \<open>letmein\<close>, or no secret at all, is rejected with
  \<open>Authentication failed\<close>; only the empty secret is admitted.  The HTTP middleware lets
  the same secret through.
\<close>

theorem unset_key_rejects_supplied_secret:
  "API_KEY_of_env None = [] \<and>
   on_connection demo_platform (API_KEY_of_env None) 0 (demo_req (Some ''letmein'') (Some ''paper'')) empty_manager =
     (None, empty_manager\<lparr>
        heap := (heap empty_manager)(0 := \<lparr>readyState = CLOSING, failure = None, isAlive = True,
                   serverType = None, serverName = None, authenticated = False\<rparr>),
        wire := [Send 0 ''ERROR'', Close 0 1008 ''Authentication failed''],
        console := [WarnRejectedInvalidKey],
        pending := [(0, EvClose)]\<rparr>) \<and>
   clients (snd (on_connection demo_platform (API_KEY_of_env None) 0 (demo_req None (Some ''paper'')) empty_manager)) = [] \<and>
   wire (snd (on_connection demo_platform (API_KEY_of_env None) 0 (demo_req None (Some ''paper'')) empty_manager))
     = [Send 0 ''ERROR'', Close 0 1008 ''Authentication failed''] \<and>
   clients (snd (on_connection demo_platform (API_KEY_of_env None) 0 (demo_req (Some []) (Some ''paper'')) empty_manager)) = [0] \<and>
   authMiddleware (API_KEY_of_env None) (Some ''letmein'') = Next"
  by (simp add: on_connection_def Let_def reject_def admit_def andThen_def ok_def ws_send_def
      ws_write_def ws_close_def update_client_def log_line_def Set_add_def empty_manager_def
      fresh_socket_def demo_req_def error_msg_def demo_platform_def demo_stringify_def
      API_KEY_of_env_def authMiddleware_def queue_failure_def queue_event_def)

text \<open>
  Claim C5.  The Bun edition inserts a connection without comparing its secret with
  \<open>API_KEY\<close>: an attempt with the secret \<open>wrong-secret\<close> becomes a member marked
  authenticated, whatever key is configured.  The \<open>ws\<close> edition with the key
  \<open>secret\<close> does not insert it.
\<close>

theorem handleConnection_skips_authentication:
  "handleConnection demo_platform 0 (demo_req (Some ''wrong-secret'') (Some ''paper'')) empty_manager =
     (None, empty_manager\<lparr>
        clients := [0],
        heap := (heap empty_manager)(0 := \<lparr>readyState = OPEN, failure = None, isAlive = True,
                   serverType = Some server, serverName = Some ''unknown'', authenticated = True\<rparr>),
        wire := [Send 0 ''CONNECTED''],
        console := [LogConnected (Some server) (Some ''unknown'')]\<rparr>) \<and>
   clients (snd (on_connection demo_platform ''secret'' 0 (demo_req (Some ''wrong-secret'') (Some ''paper'')) empty_manager)) = []"
  by (simp add: handleConnection_def Let_def ws_send_def ws_write_def update_client_def
      log_line_def Set_add_def empty_manager_def fresh_socket_def demo_req_def or_unknown_def
      connected_msg_def demo_platform_def demo_stringify_def on_connection_members
      queue_failure_def)

section \<open>Keepalive\<close>

text \<open>
  The timer of the Bun edition only pings: it never reads \<open>isAlive\<close>, never closes a
  socket and never changes the registry, however often it fires.
\<close>

lemma pingInterval_effect:
  "pingInterval c m =
     (if readyState (heap m c) = OPEN
      then (None, m\<lparr>wire := wire m @ [Ping c], pending := queue_failure (heap m c) c (pending m)\<rparr>)
      else (None, m))"
  by (simp add: pingInterval_def ws_ping_def ws_write_def ok_def)

lemma pingInterval_never_evicts:
  "clients (((\<lambda>s. snd (pingInterval c s)) ^^ n) m) = clients m \<and>
   heap (((\<lambda>s. snd (pingInterval c s)) ^^ n) m) = heap m \<and>
   (Terminate c' \<in> set (wire (((\<lambda>s. snd (pingInterval c s)) ^^ n) m)) \<longleftrightarrow> Terminate c' \<in> set (wire m)) \<and>
   (Close c' code why \<in> set (wire (((\<lambda>s. snd (pingInterval c s)) ^^ n) m))
      \<longleftrightarrow> Close c' code why \<in> set (wire m))"
  by (induction n) (simp_all add: pingInterval_effect)

text \<open>
  Claim C6.  In the Bun edition an open member that answers no probe is still a member
  after three periods, and its socket has only been pinged.
\<close>

theorem pingInterval_keeps_silent_client:
  "1 \<in> set (clients demo_manager) \<and> readyState (heap demo_manager 1) = OPEN \<and>
   snd (pingInterval 1 (snd (pingInterval 1 (snd (pingInterval 1 demo_manager)))))
     = demo_manager\<lparr>wire := [Ping 1, Ping 1, Ping 1]\<rparr> \<and>
   1 \<in> set (clients (snd (pingInterval 1 (snd (pingInterval 1 (snd (pingInterval 1 demo_manager)))))))"
  by (simp add: pingInterval_effect demo_client_def queue_failure_def)

text \<open>
  The keepalive of the \<open>ws\<close> edition on the same registry: after two periods without
  a \<open>pong\<close> every socket has been terminated, and once their \<open>close\<close> events are
  emitted the registry is empty.
\<close>

lemma keepalive_two_silent_ticks_demo:
  "wire (snd (keepalive (snd (keepalive demo_manager))))
     = [Ping 0, Ping 1, Ping 2, Terminate 0, Terminate 1, Terminate 2] \<and>
   clients (snd (run_pending (snd (keepalive (snd (keepalive demo_manager)))))) = []"
  by (simp add: keepalive_def keepalive_check_def run_pending_def demo_manager_def demo_client_def
      ws_ping_def queue_failure_def queue_event_def
      ws_write_def ws_terminate_def update_client_def log_line_def ok_def on_close_def
      on_error_def clients_delete_def Set_delete_def Let_def)

section \<open>The registry invariant\<close>

lemma forEach_invariant:
  assumes "\<And>c s. I s \<Longrightarrow> I (snd (f c s))" and "I m"
  shows "I (snd (forEach f cs m))"
  using assms(2)
proof (induction cs arbitrary: m)
  case Nil
  then show ?case by simp
next
  case (Cons c cs)
  obtain e m' where r: "f c m = (e, m')" by (cases "f c m")
  have i: "I m'" using assms(1) [OF Cons.prems, of c] r by simp
  show ?case by (cases e) (simp_all add: r i Cons.IH)
qed

lemma registry_ok_same:
  assumes "registry_ok m" and "clients m' = clients m"
    and "\<And>c. authenticated (heap m' c) = authenticated (heap m c)"
    and "\<And>c. serverType (heap m' c) = serverType (heap m c)"
  shows "registry_ok m'"
  using assms by (simp add: registry_ok_def)

lemma registry_ok_removed:
  assumes "registry_ok m" and "clients m' = removeAll x (clients m)"
    and "\<And>c. authenticated (heap m' c) = authenticated (heap m c)"
    and "\<And>c. serverType (heap m' c) = serverType (heap m c)"
  shows "registry_ok m'"
  using assms by (simp add: registry_ok_def distinct_removeAll)

lemma ws_write_ok: "registry_ok m \<Longrightarrow> registry_ok (snd (ws_write c eff m))"
  by (erule registry_ok_same) (simp_all add: ws_write_def split: ready_state.split)

lemma after_sends_ok: "registry_ok m \<Longrightarrow> registry_ok (after_sends g d m)"
  by (erule registry_ok_same) (simp_all add: after_sends_def)

lemma handleMessage_frame:
  "clients (snd (handleMessage P a data m)) = clients m \<and>
   heap (snd (handleMessage P a data m)) = heap m"
  by (simp add: handleMessage_def catch_parse_def log_line_def broadcast_eq after_sends_def
      split: sum.split)

lemma handleMessage_ok: "registry_ok m \<Longrightarrow> registry_ok (snd (handleMessage P a data m))"
  by (erule registry_ok_same) (simp_all add: handleMessage_frame)

lemma on_pong_ok: "registry_ok m \<Longrightarrow> registry_ok (on_pong c m)"
  by (erule registry_ok_same) (simp_all add: on_pong_def update_client_def)

lemma keepalive_check_ok: "registry_ok m \<Longrightarrow> registry_ok (snd (keepalive_check c m))"
  by (erule registry_ok_same)
     (simp_all add: keepalive_check_def ok_def ws_terminate_def ws_ping_def ws_write_def
        update_client_def log_line_def split: ready_state.split)

lemma keepalive_ok: "registry_ok m \<Longrightarrow> registry_ok (snd (keepalive m))"
  unfolding keepalive_def
  by (erule forEach_invariant [where I = registry_ok and f = keepalive_check, rotated])
     (rule keepalive_check_ok)

lemma pingInterval_ok: "registry_ok m \<Longrightarrow> registry_ok (snd (pingInterval c m))"
  by (simp add: pingInterval_def ws_ping_def ws_write_ok ok_def)

lemma emit_ok: "registry_ok m \<Longrightarrow> registry_ok (snd (emit e m))"
proof -
  assume r: "registry_ok m"
  obtain c ev where e: "e = (c, ev)" by (cases e)
  show ?thesis
  proof (cases ev)
    case EvClose
    show ?thesis
    proof (cases "authenticated (heap m c)")
      case True
      show ?thesis
        by (rule registry_ok_removed [OF r, of _ c])
           (simp_all add: e EvClose True ok_def on_close_def clients_delete_def Set_delete_def
              log_line_def update_client_def Let_def)
    next
      case False
      show ?thesis
        by (rule registry_ok_same [OF r])
           (simp_all add: e EvClose False ok_def update_client_def Let_def)
    qed
  next
    case EvError
    show ?thesis
    proof (cases "authenticated (heap m c)")
      case True
      show ?thesis
        by (rule registry_ok_removed [OF r, of _ c])
           (simp_all add: e EvError True ok_def on_error_def clients_delete_def Set_delete_def
              log_line_def)
    next
      case False
      show ?thesis using r by (simp add: e EvError False)
    qed
  qed
qed

lemma deliver_ok:
  assumes "registry_ok m"
  shows "registry_ok (snd (deliver e m))"
proof -
  have "registry_ok (m\<lparr>pending := removeAll e (pending m)\<rparr>)"
    using assms by (simp add: registry_ok_def)
  then show ?thesis
    unfolding deliver_def by (rule emit_ok)
qed

lemma run_pending_ok:
  assumes "registry_ok m"
  shows "registry_ok (snd (run_pending m))"
proof -
  have "registry_ok (m\<lparr>pending := []\<rparr>)"
    using assms by (simp add: registry_ok_def)
  then show ?thesis
    unfolding run_pending_def
    by (rule forEach_invariant [where I = registry_ok and f = emit, rotated]) (rule emit_ok)
qed

lemma on_connection_ok:
  assumes "registry_ok m" and "client \<notin> set (clients m)"
  shows "registry_ok (snd (on_connection P API_KEY client req m))"
  using assms
  by (auto simp: registry_ok_def on_connection_def Let_def reject_def admit_def andThen_def
      ok_def ws_send_def ws_write_def ws_close_def update_client_def log_line_def Set_add_def
      split: ready_state.split)

lemma connection_callback_ok:
  assumes "registry_ok m" and "client \<notin> set (clients m)"
  shows "registry_ok (snd (connection_callback P API_KEY client parsed m))"
proof (cases parsed)
  case (Inl e)
  then show ?thesis
    using assms by (auto simp: connection_callback_def registry_ok_def update_client_def)
next
  case (Inr req)
  then show ?thesis
    using assms by (simp add: connection_callback_def on_connection_ok)
qed

lemma handleConnection_ok:
  assumes "registry_ok m" and "client \<notin> set (clients m)"
  shows "registry_ok (snd (handleConnection P client req m))"
  using assms
  by (auto simp: registry_ok_def handleConnection_def Let_def ws_send_def ws_write_def
      update_client_def log_line_def Set_add_def split: ready_state.split)

text \<open>
  In both editions every reachable registry consists of different, admitted client
  objects that carry one of the two roles.
\<close>

lemma reachable_ws_registry_ok: "reachable_ws P API_KEY m \<Longrightarrow> registry_ok m"
proof (induction rule: reachable_ws.induct)
  case (ws_start m)
  then show ?case by (simp add: registry_ok_def)
next
  case (ws_connection m client parsed)
  then show ?case by (simp add: connection_callback_ok)
next
  case (ws_pong m client)
  then show ?case by (simp add: on_pong_ok)
next
  case (ws_message m client data)
  then show ?case by (simp add: handleMessage_ok)
next
  case (ws_tick m)
  then show ?case by (simp add: keepalive_ok)
next
  case (ws_event m e)
  then show ?case by (simp add: deliver_ok)
next
  case (ws_servers m msg)
  then show ?case by (simp add: sendToServers_eq after_sends_ok)
next
  case (ws_proxy m msg)
  then show ?case by (simp add: sendToProxy_eq after_sends_ok)
next
  case (ws_broadcast m msg ex)
  then show ?case by (simp add: broadcast_eq after_sends_ok)
qed

lemma reachable_bun_registry_ok: "reachable_bun P m \<Longrightarrow> registry_ok m"
proof (induction rule: reachable_bun.induct)
  case (bun_start m)
  then show ?case by (simp add: registry_ok_def)
next
  case (bun_connection m client req)
  then show ?case by (simp add: handleConnection_ok)
next
  case (bun_message m client data)
  then show ?case by (simp add: handleMessage_ok)
next
  case (bun_tick m client)
  then show ?case by (simp add: pingInterval_ok)
next
  case (bun_event m e)
  then show ?case by (simp add: deliver_ok)
next
  case (bun_servers m msg)
  then show ?case by (simp add: sendToServers_eq after_sends_ok)
next
  case (bun_proxy m msg)
  then show ?case by (simp add: sendToProxy_eq after_sends_ok)
next
  case (bun_broadcast m msg ex)
  then show ?case by (simp add: broadcast_eq after_sends_ok)
qed

section \<open>Write failures\<close>







section \<open>Keepalive of the \<open>ws\<close> edition\<close>

text \<open>
  One application of the keepalive callback to a member whose socket is not
  \<open>CONNECTING\<close>: it returns normally and touches the object of that member only.
\<close>

lemma keepalive_check_effect:
  assumes "readyState (heap m c) \<noteq> CONNECTING"
  shows "fst (keepalive_check c m) = None"
    and "clients (snd (keepalive_check c m)) = clients m"
    and "heap (snd (keepalive_check c m)) = (heap m)(c := keepalive_cell (heap m c))"
    and "Terminate x \<in> set (wire (snd (keepalive_check c m))) \<longleftrightarrow>
           Terminate x \<in> set (wire m) \<or> (x = c \<and> \<not> isAlive (heap m c) \<and> readyState (heap m c) \<noteq> CLOSED)"
    and "set (pending m) \<subseteq> set (pending (snd (keepalive_check c m)))"
    and "\<not> isAlive (heap m c) \<Longrightarrow> readyState (heap m c) \<noteq> CLOSED \<Longrightarrow>
           (c, EvClose) \<in> set (pending (snd (keepalive_check c m)))"
  using assms
  by (auto simp: keepalive_check_def keepalive_cell_def ok_def ws_terminate_def ws_ping_def
      ws_write_def update_client_def log_line_def set_queue_event queue_failure_def
      split: ready_state.split if_splits option.splits)

lemma keepalive_cell_not_connecting:
  "readyState cl \<noteq> CONNECTING \<Longrightarrow> readyState (keepalive_cell cl) \<noteq> CONNECTING"
  by (simp add: keepalive_cell_def)

lemma keepalive_loop:
  assumes "distinct cs" and "\<forall>x\<in>set cs. readyState (heap m x) \<noteq> CONNECTING"
  shows "fst (forEach keepalive_check cs m) = None \<and>
         clients (snd (forEach keepalive_check cs m)) = clients m \<and>
         (\<forall>x. heap (snd (forEach keepalive_check cs m)) x =
                (if x \<in> set cs then keepalive_cell (heap m x) else heap m x)) \<and>
         (\<forall>x. Terminate x \<in> set (wire (snd (forEach keepalive_check cs m))) \<longleftrightarrow>
                Terminate x \<in> set (wire m) \<or>
                (x \<in> set cs \<and> \<not> isAlive (heap m x) \<and> readyState (heap m x) \<noteq> CLOSED)) \<and>
         set (pending m) \<subseteq> set (pending (snd (forEach keepalive_check cs m))) \<and>
         (\<forall>x\<in>set cs. \<not> isAlive (heap m x) \<and> readyState (heap m x) \<noteq> CLOSED \<longrightarrow>
                (x, EvClose) \<in> set (pending (snd (forEach keepalive_check cs m))))"
  using assms
proof (induction cs arbitrary: m)
  case Nil
  show ?case by simp
next
  case (Cons c cs)
  let ?m1 = "snd (keepalive_check c m)"
  have nc: "readyState (heap m c) \<noteq> CONNECTING" using Cons.prems by simp
  note e = keepalive_check_effect [OF nc]
  have h1: "heap ?m1 x = heap m x" if "x \<noteq> c" for x
    using e(3) that by simp
  have hc: "heap ?m1 c = keepalive_cell (heap m c)"
    using e(3) by simp
  have cs: "c \<notin> set cs" "distinct cs" using Cons.prems by simp_all
  have p: "\<forall>x\<in>set cs. readyState (heap ?m1 x) \<noteq> CONNECTING"
  proof
    fix x
    assume x: "x \<in> set cs"
    then have "x \<noteq> c" using cs by auto
    then show "readyState (heap ?m1 x) \<noteq> CONNECTING"
      using Cons.prems x by (simp add: h1)
  qed
  note IH = Cons.IH [OF cs(2) p]
  have fe: "forEach keepalive_check (c # cs) m = forEach keepalive_check cs ?m1"
    using e(1) by (cases "keepalive_check c m") simp
  have g1: "heap (snd (forEach keepalive_check cs ?m1)) x =
            (if x \<in> set (c # cs) then keepalive_cell (heap m x) else heap m x)" for x
  proof (cases "x = c")
    case True
    then show ?thesis using IH cs hc by simp
  next
    case False
    then show ?thesis using IH h1 [OF False] by simp
  qed
  have g2: "Terminate x \<in> set (wire (snd (forEach keepalive_check cs ?m1))) \<longleftrightarrow>
            Terminate x \<in> set (wire m) \<or>
            (x \<in> set (c # cs) \<and> \<not> isAlive (heap m x) \<and> readyState (heap m x) \<noteq> CLOSED)" for x
  proof (cases "x = c")
    case True
    then show ?thesis using IH cs e(4) [of c] by simp
  next
    case False
    then show ?thesis using IH h1 [OF False] e(4) [of x] by simp
  qed
  have g3: "set (pending m) \<subseteq> set (pending (snd (forEach keepalive_check cs ?m1)))"
    using IH e(5) by blast
  have g4: "(x, EvClose) \<in> set (pending (snd (forEach keepalive_check cs ?m1)))"
    if "x \<in> set (c # cs)" "\<not> isAlive (heap m x)" "readyState (heap m x) \<noteq> CLOSED" for x
  proof (cases "x = c")
    case True
    then have "(x, EvClose) \<in> set (pending ?m1)" using e(6) that by simp
    then show ?thesis using IH by blast
  next
    case False
    then have "x \<in> set cs" using that by simp
    then show ?thesis using IH h1 [OF False] that by auto
  qed
  show ?case
    unfolding fe using IH e(2) g1 g2 g3 g4 by (simp add: e(2))
qed

text \<open>
  A member that answers no probe: after two periods \<open>terminate\<close> has been called on its
  socket and its \<open>close\<close> event is queued; when that event is emitted the member leaves
  the registry.
\<close>

lemma keepalive_evicts_silent:
  assumes "distinct (clients m)" and "\<forall>x\<in>set (clients m). readyState (heap m x) \<noteq> CONNECTING"
    and "c \<in> set (clients m)" and "readyState (heap m c) \<noteq> CLOSED" and "authenticated (heap m c)"
  shows "fst (keepalive m) = None \<and> fst (keepalive (snd (keepalive m))) = None \<and>
         Terminate c \<in> set (wire (snd (keepalive (snd (keepalive m))))) \<and>
         (c, EvClose) \<in> set (pending (snd (keepalive (snd (keepalive m))))) \<and>
         c \<notin> set (clients (snd (emit (c, EvClose) (snd (keepalive (snd (keepalive m)))))))"
proof -
  let ?m1 = "snd (keepalive m)"
  let ?m2 = "snd (keepalive ?m1)"
  note k1 = keepalive_loop [OF assms(1,2), folded keepalive_def]
  have c1: "clients ?m1 = clients m" using k1 by simp
  have h1: "heap ?m1 x = (if x \<in> set (clients m) then keepalive_cell (heap m x) else heap m x)" for x
    using k1 by simp
  have p1: "\<forall>x\<in>set (clients ?m1). readyState (heap ?m1 x) \<noteq> CONNECTING"
    using assms(2) by (simp add: c1 h1 keepalive_cell_not_connecting)
  have d1: "distinct (clients ?m1)" using assms(1) by (simp add: c1)
  note k2 = keepalive_loop [OF d1 p1, folded keepalive_def]
  have h2: "heap ?m2 x = (if x \<in> set (clients m) then keepalive_cell (heap ?m1 x) else heap ?m1 x)" for x
    using k2 by (simp add: c1)
  have t: "Terminate c \<in> set (wire ?m2) \<and> (c, EvClose) \<in> set (pending ?m2)"
  proof (cases "isAlive (heap m c)")
    case True
    then have "\<not> isAlive (heap ?m1 c) \<and> readyState (heap ?m1 c) \<noteq> CLOSED"
      using assms(3,4) by (simp add: h1 keepalive_cell_def)
    then show ?thesis using k2 assms(3) by (simp add: c1)
  next
    case False
    then have "Terminate c \<in> set (wire ?m1) \<and> (c, EvClose) \<in> set (pending ?m1)"
      using k1 assms(3,4) by simp
    then show ?thesis using k2 by blast
  qed
  have au: "authenticated (heap ?m2 c)"
    using assms(3,5) by (simp add: h2 h1 keepalive_cell_def)
  have "c \<notin> set (clients (snd (emit (c, EvClose) ?m2)))"
    using au by (simp add: ok_def on_close_def clients_delete_def Set_delete_def log_line_def
        update_client_def Let_def)
  then show ?thesis using k1 k2 t by simp
qed

text \<open>
  A member that answers every probe keeps its place: after any number of periods it is
  a member, its flag is set, and \<open>terminate\<close> has not been called on its socket.
\<close>

lemma answered_period_keeps:
  assumes "distinct (clients m)" and "\<forall>x\<in>set (clients m). readyState (heap m x) \<noteq> CONNECTING"
    and "c \<in> set (clients m)" and "isAlive (heap m c)" and "Terminate c \<notin> set (wire m)"
  shows "distinct (clients (answered_period c m)) \<and>
         (\<forall>x\<in>set (clients (answered_period c m)). readyState (heap (answered_period c m) x) \<noteq> CONNECTING) \<and>
         c \<in> set (clients (answered_period c m)) \<and> isAlive (heap (answered_period c m) c) \<and>
         Terminate c \<notin> set (wire (answered_period c m))"
proof -
  note k = keepalive_loop [OF assms(1,2), folded keepalive_def]
  have c1: "clients (answered_period c m) = clients m"
    using k by (simp add: answered_period_def on_pong_def update_client_def)
  have w1: "wire (answered_period c m) = wire (snd (keepalive m))"
    by (simp add: answered_period_def on_pong_def update_client_def)
  have h1: "readyState (heap (answered_period c m) x) = readyState (heap (snd (keepalive m)) x)" for x
    by (simp add: answered_period_def on_pong_def update_client_def)
  have a1: "isAlive (heap (answered_period c m) c)"
    by (simp add: answered_period_def on_pong_def update_client_def)
  have r: "\<forall>x\<in>set (clients m). readyState (heap (snd (keepalive m)) x) \<noteq> CONNECTING"
    using k assms(2) by (simp add: keepalive_cell_not_connecting)
  have t: "Terminate c \<notin> set (wire (snd (keepalive m)))"
    using k assms(4,5) by simp
  show ?thesis
    using assms(1,3) r t a1 by (simp add: c1 w1 h1)
qed

lemma keepalive_spares_responsive:
  assumes "distinct (clients m)" and "\<forall>x\<in>set (clients m). readyState (heap m x) \<noteq> CONNECTING"
    and "c \<in> set (clients m)" and "isAlive (heap m c)" and "Terminate c \<notin> set (wire m)"
  shows "c \<in> set (clients ((answered_period c ^^ n) m)) \<and>
         isAlive (heap ((answered_period c ^^ n) m) c) \<and>
         Terminate c \<notin> set (wire ((answered_period c ^^ n) m))"
proof -
  have "distinct (clients ((answered_period c ^^ n) m)) \<and>
        (\<forall>x\<in>set (clients ((answered_period c ^^ n) m)).
            readyState (heap ((answered_period c ^^ n) m) x) \<noteq> CONNECTING) \<and>
        c \<in> set (clients ((answered_period c ^^ n) m)) \<and>
        isAlive (heap ((answered_period c ^^ n) m) c) \<and>
        Terminate c \<notin> set (wire ((answered_period c ^^ n) m))"
  proof (induction n)
    case 0
    show ?case using assms by simp
  next
    case (Suc n)
    then show ?case
      using answered_period_keeps [of "(answered_period c ^^ n) m" c] by simp
  qed
  then show ?thesis by simp
qed

end
